theory Spec2Isabelle
  imports Main "HOL-Library.Monad_Syntax"
begin

section \<open>Memory cells, C strings and loops\<close>

text \<open>
  A mark array (\<open>bool *before\<close>, \<open>bool *after\<close>, \<open>bool midMarks[len + 1]\<close>) is a list of
  cells. A cell that the program has not written yet holds an indeterminate value: it is
  \<open>None\<close>; a written cell is \<open>Some b\<close>. The list's length is the number of cells of the
  array.

  Every function that touches memory returns an \<open>option\<close>: \<open>None\<close> means that the C
  program has left defined behaviour there (an index outside the array, or the use of an
  indeterminate cell), so nothing is known about what it does next.
\<close>

type_synonym marks = "bool option list"

definition rd :: "marks \<Rightarrow> nat \<Rightarrow> bool option" where
  "rd a i = (if i < length a then a ! i else None)"

definition wr :: "marks \<Rightarrow> nat \<Rightarrow> bool \<Rightarrow> marks option" where
  "wr a i v = (if i < length a then Some (a[i := Some v]) else None)"

definition NUL :: char where
  "NUL = CHR 0x00"

text \<open>
  A C string is modelled by the bytes in front of the terminator that the C library
  (\<open>getline\<close>, the process arguments) puts behind them. \<open>str_at\<close> is the read \<open>str[i]\<close>:
  the terminator at index \<open>length str\<close>, nothing beyond it.
\<close>

definition str_at :: "string \<Rightarrow> nat \<Rightarrow> char option" where
  "str_at str i =
     (if i < length str then Some (str ! i)
      else if i = length str then Some NUL
      else None)"

definition strlen :: "string \<Rightarrow> nat" where
  "strlen str = length (takeWhile (\<lambda>c. c \<noteq> NUL) str)"

text \<open>
  \<open>for (int i = 0; i < n; i++) body\<close> is \<open>for_loop [0..<n] body\<close>: the body runs for
  each index in order on the state the previous iteration left, and the loop stops where
  the body leaves defined behaviour.
\<close>

fun for_loop :: "nat list \<Rightarrow> (nat \<Rightarrow> 's \<Rightarrow> 's option) \<Rightarrow> 's \<Rightarrow> 's option" where
  "for_loop [] body s = Some s"
| "for_loop (i # is) body s =
     (case body i s of None \<Rightarrow> None | Some s' \<Rightarrow> for_loop is body s')"

section \<open>pattern.c: the pattern objects\<close>

text \<open>
  The \<open>match\<close> field of a pattern struct is a pointer to one of the nine match functions
  of pattern.c; \<open>matcher\<close> names them. The three struct types \<open>SymbolPattern\<close>,
  \<open>BinaryPattern\<close> and \<open>RepitPattern\<close> are the constructors of \<open>Pattern\<close>, each with its
  \<open>match\<close> field first and its own fields after it. The \<open>destroy\<close> field only frees
  memory and is left out.
\<close>

datatype matcher =
  MatchSymbol | MatchDot | MatchStartAnchor | MatchEndAnchor
  | MatchConcatenation | MatchAlternation
  | MatchStar | MatchPlus | MatchQMark

datatype Pattern =
  SymbolPattern matcher char
  | BinaryPattern matcher Pattern Pattern
  | RepitPattern matcher Pattern

fun match_of :: "Pattern \<Rightarrow> matcher" where
  "match_of (SymbolPattern m symb) = m"
| "match_of (BinaryPattern m p1 p2) = m"
| "match_of (RepitPattern m p) = m"

subsection \<open>Utility functions\<close>

text \<open>
  \<open>isMatch\<close>: \<open>for (int i = 0; str[i]; i++) if (marks[i]) return true; return false;\<close>
\<close>

function isMatch_from :: "string \<Rightarrow> marks \<Rightarrow> nat \<Rightarrow> bool option" where
  "isMatch_from str marks i =
     (case str_at str i of
        None \<Rightarrow> None
      | Some c \<Rightarrow>
          if c = NUL then Some False
          else (case rd marks i of
                  None \<Rightarrow> None
                | Some m \<Rightarrow> if m then Some True else isMatch_from str marks (i + 1)))"
  by pat_completeness auto
termination
  by (relation "measure (\<lambda>(str, marks, i). Suc (length str) - i)")
     (auto simp: str_at_def NUL_def split: if_splits)

declare isMatch_from.simps [simp del]

definition isMatch :: "string \<Rightarrow> marks \<Rightarrow> bool option" where
  "isMatch str marks = isMatch_from str marks 0"

subsection \<open>Symbol, dot and anchor patterns\<close>

text \<open>
  Each match function has the parameters of the C function: the pattern, \<open>len\<close>, the
  string, \<open>before\<close>, and the cells of \<open>after\<close> at the call; it returns the cells of
  \<open>after\<close> at the return. \<open>len\<close> is a C \<open>int\<close>; every caller passes a string length, so
  it is a natural number here, and the read of \<open>before[len - 1]\<close> is written out for
  \<open>len = 0\<close>, where its index is \<open>-1\<close>.
\<close>

definition matchSymbolPattern ::
  "Pattern \<Rightarrow> nat \<Rightarrow> string \<Rightarrow> marks \<Rightarrow> marks \<Rightarrow> marks option" where
  "matchSymbolPattern pat len str before after =
     (case pat of
        SymbolPattern m symb \<Rightarrow>
          do {
            a0 \<leftarrow> wr after 0 False;
            for_loop [0..<len]
              (\<lambda>i a. do {
                 b \<leftarrow> rd before i;
                 v \<leftarrow> (if b then do { c \<leftarrow> str_at str i; Some (c = symb) } else Some False);
                 wr a (i + 1) v
               }) a0
          }
      | _ \<Rightarrow> None)"

definition matchDotPattern ::
  "Pattern \<Rightarrow> nat \<Rightarrow> string \<Rightarrow> marks \<Rightarrow> marks \<Rightarrow> marks option" where
  "matchDotPattern pat len str before after =
     do {
       a0 \<leftarrow> wr after 0 False;
       for_loop [0..<len]
         (\<lambda>i a. do {
            b \<leftarrow> rd before i;
            v \<leftarrow> (if b then do { c \<leftarrow> str_at str i; Some (c \<noteq> NUL) } else Some False);
            wr a (i + 1) v
          }) a0
     }"

definition matchStartAnchorPattern ::
  "Pattern \<Rightarrow> nat \<Rightarrow> string \<Rightarrow> marks \<Rightarrow> marks \<Rightarrow> marks option" where
  "matchStartAnchorPattern pat len str before after = wr after 0 True"

definition matchEndAnchorPattern ::
  "Pattern \<Rightarrow> nat \<Rightarrow> string \<Rightarrow> marks \<Rightarrow> marks \<Rightarrow> marks option" where
  "matchEndAnchorPattern pat len str before after =
     do {
       a0 \<leftarrow> wr after 0 False;
       a1 \<leftarrow> wr a0 len True;
       b \<leftarrow> (if len = 0 then None else rd before (len - 1));
       if b = False then for_loop [0..<len - 1] (\<lambda>i a. wr a i False) a1 else Some a1
     }"

subsection \<open>Repetition patterns\<close>

text \<open>
  The bodies of \<open>matchStarPattern\<close>, \<open>matchPlusPattern\<close> and \<open>matchQMarkPattern\<close> hold a
  pointer cast and nothing else: they return with \<open>after\<close> as it was.
\<close>

definition matchStarPattern ::
  "Pattern \<Rightarrow> nat \<Rightarrow> string \<Rightarrow> marks \<Rightarrow> marks \<Rightarrow> marks option" where
  "matchStarPattern pat len str before after = Some after"

definition matchPlusPattern ::
  "Pattern \<Rightarrow> nat \<Rightarrow> string \<Rightarrow> marks \<Rightarrow> marks \<Rightarrow> marks option" where
  "matchPlusPattern pat len str before after = Some after"

definition matchQMarkPattern ::
  "Pattern \<Rightarrow> nat \<Rightarrow> string \<Rightarrow> marks \<Rightarrow> marks \<Rightarrow> marks option" where
  "matchQMarkPattern pat len str before after = Some after"

subsection \<open>Binary patterns and the call through the match field\<close>

text \<open>
  \<open>call_match pat\<close> is the call \<open>pat->match(pat, len, str, before, after)\<close>. The
  concatenation's \<open>midMarks\<close> is a fresh array of \<open>len + 1\<close> indeterminate cells. The
  alternation runs \<open>p2\<close> on the same \<open>after\<close> array that \<open>p1\<close> has written, and only when
  \<open>isMatch\<close> finds no mark in it.
\<close>

fun call_match ::
  "Pattern \<Rightarrow> nat \<Rightarrow> string \<Rightarrow> marks \<Rightarrow> marks \<Rightarrow> marks option"
and matchConcatenationPattern ::
  "Pattern \<Rightarrow> nat \<Rightarrow> string \<Rightarrow> marks \<Rightarrow> marks \<Rightarrow> marks option"
and matchAlternationPattern ::
  "Pattern \<Rightarrow> nat \<Rightarrow> string \<Rightarrow> marks \<Rightarrow> marks \<Rightarrow> marks option"
where
  "call_match pat len str before after =
     (case match_of pat of
        MatchSymbol \<Rightarrow> matchSymbolPattern pat len str before after
      | MatchDot \<Rightarrow> matchDotPattern pat len str before after
      | MatchStartAnchor \<Rightarrow> matchStartAnchorPattern pat len str before after
      | MatchEndAnchor \<Rightarrow> matchEndAnchorPattern pat len str before after
      | MatchConcatenation \<Rightarrow> matchConcatenationPattern pat len str before after
      | MatchAlternation \<Rightarrow> matchAlternationPattern pat len str before after
      | MatchStar \<Rightarrow> matchStarPattern pat len str before after
      | MatchPlus \<Rightarrow> matchPlusPattern pat len str before after
      | MatchQMark \<Rightarrow> matchQMarkPattern pat len str before after)"
| "matchConcatenationPattern pat len str before after =
     (case pat of
        BinaryPattern m p1 p2 \<Rightarrow>
          do {
            midMarks \<leftarrow> call_match p1 len str before (replicate (len + 1) None);
            call_match p2 len str midMarks after
          }
      | _ \<Rightarrow> None)"
| "matchAlternationPattern pat len str before after =
     (case pat of
        BinaryPattern m p1 p2 \<Rightarrow>
          do {
            a1 \<leftarrow> call_match p1 len str before after;
            found \<leftarrow> isMatch str a1;
            if \<not> found then call_match p2 len str before a1 else Some a1
          }
      | _ \<Rightarrow> None)"

declare call_match.simps [simp del]
declare matchConcatenationPattern.simps [simp del]
declare matchAlternationPattern.simps [simp del]

subsection \<open>Constructors\<close>

definition makeSymbolPattern :: "char \<Rightarrow> Pattern" where
  "makeSymbolPattern symb = SymbolPattern MatchSymbol symb"

definition makeDotPattern :: "char \<Rightarrow> Pattern" where
  "makeDotPattern symb = SymbolPattern MatchDot symb"

definition makeStartAnchorPattern :: "char \<Rightarrow> Pattern" where
  "makeStartAnchorPattern symb = SymbolPattern MatchStartAnchor symb"

definition makeEndAnchorPattern :: "char \<Rightarrow> Pattern" where
  "makeEndAnchorPattern symb = SymbolPattern MatchEndAnchor symb"

definition makeConcatenationPattern :: "Pattern \<Rightarrow> Pattern \<Rightarrow> Pattern" where
  "makeConcatenationPattern p1 p2 = BinaryPattern MatchConcatenation p1 p2"

definition makeAlternationPattern :: "Pattern \<Rightarrow> Pattern \<Rightarrow> Pattern" where
  "makeAlternationPattern p1 p2 = BinaryPattern MatchAlternation p1 p2"

definition makeStarPattern :: "Pattern \<Rightarrow> Pattern" where
  "makeStarPattern p = RepitPattern MatchStar p"

definition makePlusPattern :: "Pattern \<Rightarrow> Pattern" where
  "makePlusPattern p = RepitPattern MatchStar p"

definition makeQMarkPattern :: "Pattern \<Rightarrow> Pattern" where
  "makeQMarkPattern p = RepitPattern MatchStar p"

section \<open>mygrep.c: the parser\<close>

text \<open>
  \<open>chr_at str pos\<close> is the parser's read \<open>str[*pos]\<close> of the pattern string. The cursor
  starts at 0 and moves only over bytes that are not the terminator, so the parser reads
  the terminator at most (lemma \<open>parseAlternation_cursor\<close> below).
\<close>

definition chr_at :: "string \<Rightarrow> nat \<Rightarrow> char" where
  "chr_at str pos = (if pos < length str then str ! pos else NUL)"

text \<open>
  \<open>ordinary\<close>: \<open>strchr(".^$*?+|()[{", c)\<close> is not null for the eleven special characters
  and for the terminator, which \<open>strchr\<close> counts as part of the string it searches.
\<close>

definition ordinary :: "char \<Rightarrow> bool" where
  "ordinary c = (if c \<in> set ''.^$*?+|()[{'' \<or> c = NUL then False else True)"

text \<open>
  \<open>invalidPattern()\<close> prints \<open>Invalid pattern\<close> and ends the process with
  \<open>EXIT_FAILURE\<close>: the parse functions return \<open>Inl InvalidPattern\<close> there, and their
  callers pass it on. A successful parse returns the pattern and the new value of \<open>*pos\<close>.
\<close>

datatype parse_error = InvalidPattern

definition parseAtomicPattern :: "string \<Rightarrow> nat \<Rightarrow> parse_error + Pattern \<times> nat" where
  "parseAtomicPattern str pos =
     (if ordinary (chr_at str pos) then Inr (makeSymbolPattern (chr_at str pos), pos + 1)
      else if chr_at str pos = CHR ''.'' then Inr (makeDotPattern (chr_at str pos), pos + 1)
      else if chr_at str pos = CHR ''^'' then
        Inr (makeStartAnchorPattern (chr_at str pos), pos + 1)
      else if chr_at str pos = CHR ''$'' then
        Inr (makeEndAnchorPattern (chr_at str pos), pos + 1)
      else Inl InvalidPattern)"

definition parseRepetition :: "string \<Rightarrow> nat \<Rightarrow> parse_error + Pattern \<times> nat" where
  "parseRepetition str pos = parseAtomicPattern str pos"

lemma parseRepetition_advances:
  "parseRepetition str pos = Inr (p, pos') \<Longrightarrow> pos' = pos + 1"
  by (auto simp: parseRepetition_def parseAtomicPattern_def split: if_splits)

function parseConcatenation_loop ::
  "string \<Rightarrow> Pattern \<Rightarrow> nat \<Rightarrow> parse_error + Pattern \<times> nat" where
  "parseConcatenation_loop str p1 pos =
     (if chr_at str pos \<noteq> NUL \<and> chr_at str pos \<noteq> CHR ''|'' \<and> chr_at str pos \<noteq> CHR '')''
      then (case parseRepetition str pos of
              Inl e \<Rightarrow> Inl e
            | Inr (p2, pos') \<Rightarrow>
                parseConcatenation_loop str (makeConcatenationPattern p1 p2) pos')
      else Inr (p1, pos))"
  by pat_completeness auto
termination
  by (relation "measure (\<lambda>(str, p1, pos). length str - pos)")
     (auto simp: chr_at_def dest!: parseRepetition_advances split: if_splits)

declare parseConcatenation_loop.simps [simp del]

definition parseConcatenation :: "string \<Rightarrow> nat \<Rightarrow> parse_error + Pattern \<times> nat" where
  "parseConcatenation str pos =
     (case parseRepetition str pos of
        Inl e \<Rightarrow> Inl e
      | Inr (p1, pos') \<Rightarrow> parseConcatenation_loop str p1 pos')"

lemma parseConcatenation_loop_cursor:
  "parseConcatenation_loop str p1 pos = Inr (p, pos') \<Longrightarrow> pos \<le> pos'"
proof (induction str p1 pos rule: parseConcatenation_loop.induct)
  case (1 str p1 pos)
  show ?case
  proof (cases "chr_at str pos \<noteq> NUL \<and> chr_at str pos \<noteq> CHR ''|''
                \<and> chr_at str pos \<noteq> CHR '')''")
    case False
    with "1.prems" show ?thesis
      by (simp add: parseConcatenation_loop.simps [of str p1 pos])
  next
    case True
    with "1.prems" obtain p2 q where
      rep: "parseRepetition str pos = Inr (p2, q)" and
      rest: "parseConcatenation_loop str (makeConcatenationPattern p1 p2) q = Inr (p, pos')"
      by (auto simp: parseConcatenation_loop.simps [of str p1 pos] split: sum.splits)
    from "1.IH" [OF True rep refl rest] parseRepetition_advances [OF rep]
    show ?thesis by simp
  qed
qed

lemma parseConcatenation_advances:
  "parseConcatenation str pos = Inr (p, pos') \<Longrightarrow> pos < pos'"
  by (auto simp: parseConcatenation_def split: sum.splits
           dest!: parseRepetition_advances parseConcatenation_loop_cursor)

function parseAlternation_loop ::
  "string \<Rightarrow> Pattern \<Rightarrow> nat \<Rightarrow> parse_error + Pattern \<times> nat" where
  "parseAlternation_loop str p1 pos =
     (if chr_at str pos \<noteq> NUL \<and> chr_at str pos = CHR ''|''
      then (case parseConcatenation str (pos + 1) of
              Inl e \<Rightarrow> Inl e
            | Inr (p2, pos') \<Rightarrow>
                parseAlternation_loop str (makeAlternationPattern p1 p2) pos')
      else Inr (p1, pos))"
  by pat_completeness auto
termination
  by (relation "measure (\<lambda>(str, p1, pos). length str - pos)")
     (auto simp: chr_at_def dest!: parseConcatenation_advances split: if_splits)

declare parseAlternation_loop.simps [simp del]

definition parseAlternation :: "string \<Rightarrow> nat \<Rightarrow> parse_error + Pattern \<times> nat" where
  "parseAlternation str pos =
     (case parseConcatenation str pos of
        Inl e \<Rightarrow> Inl e
      | Inr (p1, pos') \<Rightarrow> parseAlternation_loop str p1 pos')"

section \<open>mygrep.c: the driver\<close>

text \<open>
  For one line \<open>str\<close> that \<open>getline\<close> has returned (with its line terminator, when the
  input has one there), \<open>main\<close> takes \<open>len = strlen(str)\<close>, allocates \<open>len + 1\<close> cells
  for \<open>before\<close> with \<open>malloc\<close> (indeterminate cells) and runs
  \<open>for (int i = 0; i < len; i++) before[i] = true;\<close>.
\<close>

definition LF :: char where
  "LF = CHR 0x0A"

definition initBefore :: "string \<Rightarrow> marks option" where
  "initBefore str =
     for_loop [0..<strlen str] (\<lambda>i before. wr before i True)
       (replicate (strlen str + 1) None)"

text \<open>
  \<open>after\<close> is declared as \<open>bool after[sizeof(before) / sizeof(before[0])]\<close>, where
  \<open>before\<close> is a pointer: its number of cells is the size of a pointer divided by the size
  of a \<open>bool\<close>, the parameter \<open>cells\<close> (8 with 8-byte pointers and 1-byte \<open>bool\<close>).
  \<open>matchLine\<close> returns what \<open>isMatch(str, after)\<close> returns after the call of the pattern's
  match function: \<open>Some True\<close> is a line that \<open>main\<close> prints.
\<close>

definition matchLine :: "nat \<Rightarrow> Pattern \<Rightarrow> string \<Rightarrow> bool option" where
  "matchLine cells pat str =
     do {
       before \<leftarrow> initBefore str;
       after \<leftarrow> call_match pat (strlen str) str before (replicate cells None);
       isMatch str after
     }"

text \<open>
  The run for a pattern argument and the lines of the input: the parse first, then one
  \<open>matchLine\<close> for each line with the pattern parsed. \<open>main\<close> does not look at the cursor
  that \<open>parseAlternation\<close> returns. The lines are given as \<open>getline\<close> returns them; the
  checks of the arguments and of the input file, which come before the parse, are left
  out. An entry \<open>None\<close> is a line on which the program leaves defined behaviour, and the
  entries behind it say what the program does when it goes on as if it had not.
\<close>

definition mygrep :: "nat \<Rightarrow> string \<Rightarrow> string list \<Rightarrow> parse_error + bool option list" where
  "mygrep cells pattern lines =
     (case parseAlternation pattern 0 of
        Inl e \<Rightarrow> Inl e
      | Inr (pat, pos) \<Rightarrow> Inr (map (matchLine cells pat) lines))"

section \<open>The pattern grammar of the specification\<close>

text \<open>
  The grammar that the specification gives for pattern strings, as the languages of its
  four tiers. These definitions follow the specification's words, not the parser above:
  an atomic pattern is an ordinary character (one outside the special set), a dot, an
  anchor, a bracketed class without \<open>]\<close> and newline inside, or a parenthesized
  alternation; a repetition is an atomic pattern followed by any number of operators; a
  concatenation is one repetition or more; an alternation is one concatenation or more,
  separated by bars. A pattern string conforms when it is a \<open>spec_Alternation\<close> as a
  whole.
\<close>

definition spec_special :: "char set" where
  "spec_special = set ''.^$*?+|()[{''"

inductive spec_Atomic :: "string \<Rightarrow> bool"
  and spec_Repetition :: "string \<Rightarrow> bool"
  and spec_Concatenation :: "string \<Rightarrow> bool"
  and spec_Alternation :: "string \<Rightarrow> bool"
where
  atomic_ordinary: "c \<notin> spec_special \<Longrightarrow> spec_Atomic [c]"
| atomic_dot: "spec_Atomic ''.''"
| atomic_start: "spec_Atomic ''^''"
| atomic_end: "spec_Atomic ''$''"
| atomic_class:
    "CHR '']'' \<notin> set cs \<Longrightarrow> LF \<notin> set cs \<Longrightarrow> spec_Atomic (''['' @ cs @ '']'')"
| atomic_paren: "spec_Alternation s \<Longrightarrow> spec_Atomic (''('' @ s @ '')'')"
| repetition_atomic: "spec_Atomic s \<Longrightarrow> spec_Repetition s"
| repetition_op:
    "spec_Repetition s \<Longrightarrow> op \<in> set ''*+?'' \<Longrightarrow> spec_Repetition (s @ [op])"
| concatenation_one: "spec_Repetition s \<Longrightarrow> spec_Concatenation s"
| concatenation_more:
    "spec_Concatenation s \<Longrightarrow> spec_Repetition t \<Longrightarrow> spec_Concatenation (s @ t)"
| alternation_one: "spec_Concatenation s \<Longrightarrow> spec_Alternation s"
| alternation_more:
    "spec_Alternation s \<Longrightarrow> spec_Concatenation t \<Longrightarrow> spec_Alternation (s @ ''|'' @ t)"

code_pred spec_Alternation .

section \<open>Properties of the loops and of the parser's cursor\<close>

lemma for_loop_snoc:
  "for_loop (xs @ [x]) body s =
     (case for_loop xs body s of None \<Rightarrow> None | Some s' \<Rightarrow> body x s')"
  by (induction xs arbitrary: s) (auto split: option.splits)

lemma strlen_no_NUL: "NUL \<notin> set str \<Longrightarrow> strlen str = length str"
  by (induction str) (auto simp: strlen_def)

text \<open>The cursor that a successful parse returns is inside the pattern string.\<close>

lemma parseRepetition_cursor:
  "parseRepetition str pos = Inr (p, pos') \<Longrightarrow> pos' \<le> length str"
  by (auto simp: parseRepetition_def parseAtomicPattern_def chr_at_def ordinary_def NUL_def
           split: if_splits)

lemma parseConcatenation_loop_bound:
  "parseConcatenation_loop str p1 pos = Inr (p, pos') \<Longrightarrow> pos \<le> length str \<Longrightarrow>
   pos' \<le> length str"
proof (induction str p1 pos rule: parseConcatenation_loop.induct)
  case (1 str p1 pos)
  show ?case
  proof (cases "chr_at str pos \<noteq> NUL \<and> chr_at str pos \<noteq> CHR ''|''
                \<and> chr_at str pos \<noteq> CHR '')''")
    case False
    with "1.prems" show ?thesis
      by (simp add: parseConcatenation_loop.simps [of str p1 pos])
  next
    case True
    with "1.prems" obtain p2 q where
      rep: "parseRepetition str pos = Inr (p2, q)" and
      rest: "parseConcatenation_loop str (makeConcatenationPattern p1 p2) q = Inr (p, pos')"
      by (auto simp: parseConcatenation_loop.simps [of str p1 pos] split: sum.splits)
    from "1.IH" [OF True rep refl rest] parseRepetition_cursor [OF rep]
    show ?thesis by simp
  qed
qed

lemma parseConcatenation_bound:
  "parseConcatenation str pos = Inr (p, pos') \<Longrightarrow> pos' \<le> length str"
  by (auto simp: parseConcatenation_def split: sum.splits
           dest: parseRepetition_cursor parseConcatenation_loop_bound)

lemma parseAlternation_loop_bound:
  "parseAlternation_loop str p1 pos = Inr (p, pos') \<Longrightarrow> pos \<le> length str \<Longrightarrow>
   pos' \<le> length str"
proof (induction str p1 pos rule: parseAlternation_loop.induct)
  case (1 str p1 pos)
  show ?case
  proof (cases "chr_at str pos \<noteq> NUL \<and> chr_at str pos = CHR ''|''")
    case False
    with "1.prems" show ?thesis
      by (simp add: parseAlternation_loop.simps [of str p1 pos])
  next
    case True
    with "1.prems" obtain p2 q where
      con: "parseConcatenation str (pos + 1) = Inr (p2, q)" and
      rest: "parseAlternation_loop str (makeAlternationPattern p1 p2) q = Inr (p, pos')"
      by (auto simp: parseAlternation_loop.simps [of str p1 pos] split: sum.splits)
    from "1.IH" [OF True con refl rest] parseConcatenation_bound [OF con]
    show ?thesis by simp
  qed
qed

lemma parseAlternation_cursor:
  "parseAlternation str pos = Inr (p, pos') \<Longrightarrow> pos' \<le> length str"
  by (auto simp: parseAlternation_def split: sum.splits
           dest: parseConcatenation_bound parseAlternation_loop_bound)

text \<open>
  The parser has no case for a repetition operator, a bracket or a parenthesis: where an
  atomic pattern is due, every special character other than the dot and the two anchors
  ends the run.
\<close>

lemma parseAtomicPattern_special:
  "c \<in> set ''*?+|()[{'' \<Longrightarrow> chr_at str pos = c \<Longrightarrow>
   parseAtomicPattern str pos = Inl InvalidPattern"
  by (auto simp: parseAtomicPattern_def ordinary_def)

section \<open>Properties of the match functions\<close>

text \<open>What each of the simple match functions leaves in \<open>after\<close>.\<close>

lemma matchStar_returns_after:
  "call_match (RepitPattern MatchStar p) len str before after = Some after"
  by (simp add: call_match.simps matchStarPattern_def)

lemma startAnchor_result:
  "0 < length after \<Longrightarrow>
   call_match (makeStartAnchorPattern c) len str before after = Some (after[0 := Some True])"
  by (simp add: call_match.simps makeStartAnchorPattern_def matchStartAnchorPattern_def
                wr_def)

lemma alternation_result:
  "call_match (makeAlternationPattern p1 p2) len str before after =
     do {
       a1 \<leftarrow> call_match p1 len str before after;
       found \<leftarrow> isMatch str a1;
       if \<not> found then call_match p2 len str before a1 else Some a1
     }"
  by (simp add: call_match.simps [of "BinaryPattern MatchAlternation p1 p2"]
                makeAlternationPattern_def matchAlternationPattern.simps)

text \<open>
  \<open>isMatch\<close> on an array of written cells and a string without an inner terminator: it
  looks at the cells in front of the terminator, one for each character, and at no cell
  behind them.
\<close>

lemma isMatch_from_marks:
  assumes "NUL \<notin> set str" and "length str \<le> length ms"
  shows "isMatch_from str (map Some ms) i =
           (if i \<le> length str then Some (\<exists>j. i \<le> j \<and> j < length str \<and> ms ! j)
            else None)"
  using assms
proof (induction str "map Some ms" i rule: isMatch_from.induct)
  case (1 str i)
  show ?case
  proof (cases "i < length str")
    case True
    then have c: "str ! i \<noteq> NUL" using "1.prems" by (metis nth_mem)
    have s: "str_at str i = Some (str ! i)" using True by (simp add: str_at_def)
    have r: "rd (map Some ms) i = Some (ms ! i)" using True "1.prems" by (simp add: rd_def)
    show ?thesis
    proof (cases "ms ! i")
      case True
      with \<open>i < length str\<close> s c r show ?thesis
        by (auto simp: isMatch_from.simps [of str "map Some ms" i])
    next
      case False
      from "1.hyps" [OF s c r False] "1.prems"
      have "isMatch_from str (map Some ms) (i + 1)
              = Some (\<exists>j. i + 1 \<le> j \<and> j < length str \<and> ms ! j)"
        using \<open>i < length str\<close> by simp
      moreover have "(\<exists>j. i + 1 \<le> j \<and> j < length str \<and> ms ! j)
                       = (\<exists>j. i \<le> j \<and> j < length str \<and> ms ! j)"
        using False by (metis Suc_eq_plus1 Suc_leI le_neq_implies_less Suc_leD)
      ultimately show ?thesis
        using \<open>i < length str\<close> s c r False
        by (simp add: isMatch_from.simps [of str "map Some ms" i])
    qed
  next
    case False
    then show ?thesis
      by (auto simp: isMatch_from.simps [of str "map Some ms" i] str_at_def)
  qed
qed

lemma isMatch_marks:
  "NUL \<notin> set str \<Longrightarrow> length str \<le> length ms \<Longrightarrow>
   isMatch str (map Some ms) = Some (\<exists>j<length str. ms ! j)"
  by (simp add: isMatch_def isMatch_from_marks)

text \<open>
  The driver's loop writes the first \<open>strlen str\<close> cells of \<open>before\<close> and leaves the last
  one as \<open>malloc\<close> returned it.
\<close>

lemma initBefore_loop:
  "n < length b0 \<Longrightarrow>
   for_loop [0..<n] (\<lambda>i before. wr before i True) b0
     = Some (replicate n (Some True) @ drop n b0)"
proof (induction n)
  case 0
  then show ?case by simp
next
  case (Suc n)
  then have "for_loop [0..<n] (\<lambda>i before. wr before i True) b0
               = Some (replicate n (Some True) @ drop n b0)"
    by simp
  moreover have "drop n b0 = b0 ! n # drop (Suc n) b0"
    using Suc.prems by (simp add: Cons_nth_drop_Suc)
  then have "(replicate n (Some True) @ drop n b0)[n := Some True]
               = replicate (Suc n) (Some True) @ drop (Suc n) b0"
    by (simp add: list_update_append replicate_app_Cons_same)
  ultimately show ?case
    using Suc.prems by (simp add: for_loop_snoc wr_def)
qed

lemma drop_fresh_cells: "drop n (replicate (n + 1) x) = [x]"
  by (induction n) auto

lemma initBefore_cells:
  "initBefore str = Some (replicate (strlen str) (Some True) @ [None])"
proof -
  have "strlen str < length (replicate (strlen str + 1) (None :: bool option))"
    by simp
  from initBefore_loop [OF this] show ?thesis
    unfolding initBefore_def by (simp only: drop_fresh_cells)
qed

text \<open>The loop of \<open>matchSymbolPattern\<close> after \<open>n\<close> iterations.\<close>

lemma symbol_loop:
  assumes "n \<le> length str" and "n < length a0" and "n \<le> length bs"
  shows "\<exists>r. for_loop [0..<n]
              (\<lambda>i a. do {
                 b \<leftarrow> rd (map Some bs) i;
                 v \<leftarrow> (if b then do { c \<leftarrow> str_at str i; Some (c = symb) } else Some False);
                 wr a (i + 1) v
               }) a0 = Some r
           \<and> length r = length a0 \<and> r ! 0 = a0 ! 0
           \<and> (\<forall>i<n. r ! Suc i = Some (bs ! i \<and> str ! i = symb))"
  using assms
proof (induction n)
  case 0
  then show ?case by simp
next
  case (Suc n)
  then obtain r where r:
    "for_loop [0..<n]
       (\<lambda>i a. do {
          b \<leftarrow> rd (map Some bs) i;
          v \<leftarrow> (if b then do { c \<leftarrow> str_at str i; Some (c = symb) } else Some False);
          wr a (i + 1) v
        }) a0 = Some r"
    "length r = length a0" "r ! 0 = a0 ! 0"
    "\<forall>i<n. r ! Suc i = Some (bs ! i \<and> str ! i = symb)"
    by auto
  from Suc.prems r show ?case
    by (auto simp: for_loop_snoc rd_def wr_def str_at_def nth_list_update less_Suc_eq)
qed

section \<open>Properties of the specification's grammar\<close>

text \<open>
  Every string of the grammar is non-empty, and one that ends with a closing parenthesis
  holds an opening one. So \<open>a)\<close> is no pattern of the grammar, while \<open>a**\<close> is one.
\<close>

lemma spec_grammar_closing_paren:
  "(spec_Atomic s \<longrightarrow> s \<noteq> [] \<and> (last s = CHR '')'' \<longrightarrow> CHR ''('' \<in> set s))
   \<and> (spec_Repetition s \<longrightarrow> s \<noteq> [] \<and> (last s = CHR '')'' \<longrightarrow> CHR ''('' \<in> set s))
   \<and> (spec_Concatenation s \<longrightarrow> s \<noteq> [] \<and> (last s = CHR '')'' \<longrightarrow> CHR ''('' \<in> set s))
   \<and> (spec_Alternation s \<longrightarrow> s \<noteq> [] \<and> (last s = CHR '')'' \<longrightarrow> CHR ''('' \<in> set s))"
  by (induction rule: spec_Atomic_spec_Repetition_spec_Concatenation_spec_Alternation.induct)
     (auto simp: spec_special_def)

lemma spec_rejects_stray_paren: "\<not> spec_Alternation ''a)''"
  using spec_grammar_closing_paren [of "''a)''"] by auto

lemma spec_accepts_double_star: "spec_Alternation ''a**''"
proof -
  have "spec_Atomic ''a''"
    by (rule atomic_ordinary) (simp add: spec_special_def)
  then have "spec_Repetition ''a''"
    by (rule repetition_atomic)
  then have "spec_Repetition (''a'' @ ''*'')"
    by (rule repetition_op) simp
  then have "spec_Repetition ((''a'' @ ''*'') @ ''*'')"
    by (rule repetition_op) simp
  then have "spec_Repetition ''a**''"
    by simp
  then show ?thesis
    by (intro alternation_one concatenation_one)
qed

text \<open>
  The parser on an ordinary character followed by a repetition operator: the operator is
  read where the next atomic pattern is due.
\<close>

lemma parse_rejects_repetition:
  assumes "ordinary c" and "op \<in> set ''*+?''"
  shows "parseAlternation (c # op # rest) 0 = Inl InvalidPattern"
proof -
  have first: "parseRepetition (c # op # rest) 0 = Inr (makeSymbolPattern c, Suc 0)"
    using assms(1) by (simp add: parseRepetition_def parseAtomicPattern_def chr_at_def)
  have "op \<in> set ''*?+|()[{''"
    using assms(2) by auto
  then have second: "parseRepetition (c # op # rest) (Suc 0) = Inl InvalidPattern"
    unfolding parseRepetition_def
    by (rule parseAtomicPattern_special) (simp add: chr_at_def)
  have "chr_at (c # op # rest) (Suc 0) \<noteq> NUL \<and> chr_at (c # op # rest) (Suc 0) \<noteq> CHR ''|''
        \<and> chr_at (c # op # rest) (Suc 0) \<noteq> CHR '')''"
    using assms(2) by (auto simp: chr_at_def NUL_def)
  then have "parseConcatenation_loop (c # op # rest) (makeSymbolPattern c) (Suc 0)
               = Inl InvalidPattern"
    by (simp add: parseConcatenation_loop.simps [of _ _ "Suc 0"] second)
  then show ?thesis
    by (simp add: parseAlternation_def parseConcatenation_def first)
qed

section \<open>The claims\<close>

text \<open>
  C1: Star(p).match(before) returns the smallest superset of \<open>before\<close> that is closed
  under p's match, found in at most n+1 iterations. \<open>matchStarPattern\<close> has an empty body:
  for the pattern Star(Symbol a), the line \<open>a\<close>, the position set \<open>{0}\<close> and a fresh
  \<open>after\<close> array, the array comes back with no cell written, so neither position 0 of
  \<open>before\<close> nor position 1, which \<open>a\<close> reaches from it, is marked.
\<close>

theorem star_match_writes_nothing:
  "call_match (makeStarPattern (makeSymbolPattern (CHR ''a''))) 1 ''a''
     [Some True, Some False] [None, None] = Some [None, None]"
  by code_simp

text \<open>
  C2: Alternation(p1,p2).match(before) is the elementwise union of both branches' results,
  with both branches always run. \<open>matchAlternationPattern\<close> runs \<open>p2\<close> only when
  \<open>isMatch\<close> finds no mark in what \<open>p1\<close> wrote: for \<open>a|b\<close> on the line \<open>ab\<close> with every
  position in \<open>before\<close>, the first branch marks position 1, the second alone marks
  position 2, and the alternation returns the first branch's marks only.
\<close>

theorem alternation_skips_second_branch:
  "call_match (makeSymbolPattern (CHR ''a'')) 2 ''ab''
     [Some True, Some True, Some True] [None, None, None]
     = Some [Some False, Some True, Some False]
   \<and> call_match (makeSymbolPattern (CHR ''b'')) 2 ''ab''
     [Some True, Some True, Some True] [None, None, None]
     = Some [Some False, Some False, Some True]
   \<and> call_match (makeAlternationPattern (makeSymbolPattern (CHR ''a''))
                                       (makeSymbolPattern (CHR ''b''))) 2 ''ab''
     [Some True, Some True, Some True] [None, None, None]
     = Some [Some False, Some True, Some False]"
  by code_simp

text \<open>
  C3: StartAnchor.match(before) returns result[0] = before[0] and false at every other
  position, and never marks position 0 when \<open>before\<close> does not hold it.
  \<open>matchStartAnchorPattern\<close> writes \<open>true\<close> to \<open>after[0]\<close> and nothing else: for the line
  \<open>a\<close> and an empty \<open>before\<close>, position 0 comes back marked and the cell of position 1
  comes back unwritten. In a run, the anchor gets such a \<open>before\<close> from the symbol in
  front of it: the pattern \<open>a^\<close> reports the line \<open>b\<close>.
\<close>

theorem start_anchor_forces_first_mark:
  "call_match (makeStartAnchorPattern (CHR ''^'')) 1 ''a''
     [Some False, Some False] [None, None] = Some [Some True, None]
   \<and> mygrep 8 ''a^'' [''b'' @ [LF]] = Inr [Some True]"
  by code_simp

text \<open>
  C4: EndAnchor.match(before) returns result[n] = before[n] and false at every position
  below n. \<open>matchEndAnchorPattern\<close> writes \<open>true\<close> to \<open>after[len]\<close> whatever \<open>before\<close>
  holds, and clears positions up to \<open>len - 2\<close> only: for the line \<open>ab\<close> and an empty
  \<open>before\<close>, position 2 comes back marked and the cell of position 1 comes back
  unwritten.
\<close>

theorem end_anchor_forces_last_mark:
  "call_match (makeEndAnchorPattern (CHR ''$'')) 2 ''ab''
     [Some False, Some False, Some False] [None, None, None]
     = Some [Some False, None, Some True]"
  by code_simp

text \<open>
  C5: a pattern string made of an atomic pattern and one or more of the operators
  \<open>*\<close>, \<open>+\<close>, \<open>?\<close> parses to the atomic pattern's tree wrapped once for each operator, so
  \<open>a**\<close> parses to Star(Star(Symbol a)). \<open>parseRepetition\<close> returns what
  \<open>parseAtomicPattern\<close> returns and reads no operator: the parse of \<open>a**\<close>, \<open>a*\<close>, \<open>a+\<close> and
  \<open>a?\<close> ends in \<open>invalidPattern\<close>.
\<close>

theorem repetition_operator_rejected:
  "parseAlternation ''a**'' 0 = Inl InvalidPattern
   \<and> parseAlternation ''a*'' 0 = Inl InvalidPattern
   \<and> parseAlternation ''a+'' 0 = Inl InvalidPattern
   \<and> parseAlternation ''a?'' 0 = Inl InvalidPattern"
  by code_simp

text \<open>
  C6: a line of length n is reported as matching exactly when one of the n+1 entries of
  \<open>after\<close> is true, the last entry \<open>after[n]\<close> included. \<open>isMatch\<close> stops at the string's
  terminator and never reads the last entry: for the line \<open>a\<close> and the marks
  \<open>[false, true]\<close> it returns false, and the run of the pattern \<open>a\<close> on the unterminated
  input line \<open>a\<close> does not report the line.
\<close>

theorem isMatch_skips_last_mark:
  "isMatch ''a'' [Some False, Some True] = Some False
   \<and> mygrep 8 ''a'' [''a''] = Inr [Some False]"
  by code_simp

text \<open>
  C7: for each input line the driver builds \<open>before\<close> with all n+1 entries true, where n
  is the line's length without its terminator. The driver's loop writes the first
  \<open>len\<close> of the \<open>len + 1\<close> cells, and \<open>len\<close> counts the terminator that \<open>getline\<close> leaves in
  the line: for the line \<open>a\<close> the second cell stays unwritten, and for \<open>a\<close> with its line
  feed the array has three cells, the third unwritten.
\<close>

theorem initBefore_last_cell_unset:
  "initBefore ''a'' = Some [Some True, None]
   \<and> initBefore (''a'' @ [LF]) = Some [Some True, Some True, None]"
  by code_simp

text \<open>
  C8: every pattern string outside the grammar makes the parse fail with the invalid
  pattern error, and no line is matched then. The driver never looks at the cursor after
  \<open>parseAlternation\<close> returns: the pattern \<open>a)\<close> parses to Symbol a with the cursor in
  front of the parenthesis, and the run reports the line \<open>a\<close>. The unterminated class
  \<open>[abc\<close> does end in \<open>invalidPattern\<close>.
\<close>

theorem trailing_input_accepted:
  "parseAlternation ''a)'' 0 = Inr (makeSymbolPattern (CHR ''a''), 1)
   \<and> mygrep 8 ''a)'' [''a'' @ [LF]] = Inr [Some True]
   \<and> parseAlternation ''[abc'' 0 = Inl InvalidPattern"
  by code_simp

text \<open>
  C9: for every character c, every line of length n and every position set \<open>before\<close> of
  length n+1, Symbol(c).match(before) returns a set with result[0] = false and
  result[i+1] = before[i] \<and> (line[i] = c) for every i below n.
\<close>

theorem symbol_match_shift:
  assumes "length bs = Suc (length str)" and "length after = Suc (length str)"
  shows "\<exists>r. call_match (makeSymbolPattern c) (length str) str (map Some bs) after = Some r
           \<and> length r = Suc (length str) \<and> r ! 0 = Some False
           \<and> (\<forall>i<length str. r ! Suc i = Some (bs ! i \<and> str ! i = c))"
proof -
  have w0: "wr after 0 False = Some (after[0 := Some False])"
    using assms by (simp add: wr_def)
  have "length str < length (after[0 := Some False])"
    using assms by simp
  from symbol_loop [OF le_refl this, of bs c] assms
  show ?thesis
    by (simp add: call_match.simps makeSymbolPattern_def matchSymbolPattern_def w0)
qed

theorem symbol_match_shift_witness:
  "\<exists>r. call_match (makeSymbolPattern (CHR ''b'')) (length ''ab'') ''ab''
          (map Some [True, True, False]) [None, None, None] = Some r
       \<and> length r = Suc (length ''ab'') \<and> r ! 0 = Some False
       \<and> (\<forall>i<length ''ab''.
             r ! Suc i = Some ([True, True, False] ! i \<and> ''ab'' ! i = CHR ''b''))"
  using symbol_match_shift [of "[True, True, False]" "''ab''" "[None, None, None]" "CHR ''b''"]
  by simp

text \<open>
  C10: for every subpattern p, \<open>makeStarPattern\<close>, \<open>makePlusPattern\<close> and
  \<open>makeQMarkPattern\<close> store the same match routine, \<open>matchStarPattern\<close>, so the three
  patterns behave alike on every line and every position set.
\<close>

theorem repetition_makers_share_match:
  "match_of (makeStarPattern p) = MatchStar
   \<and> match_of (makePlusPattern p) = MatchStar
   \<and> match_of (makeQMarkPattern p) = MatchStar
   \<and> call_match (makePlusPattern p) len str before after
       = call_match (makeStarPattern p) len str before after
   \<and> call_match (makeQMarkPattern p) len str before after
       = call_match (makeStarPattern p) len str before after"
  by (simp add: makeStarPattern_def makePlusPattern_def makeQMarkPattern_def)

end
